theory Spec2Isabelle
  imports Main "HOL-Library.Char_ord" "HOL-Library.List_Lexorder"
begin

section \<open>The syntax trees that \<open>node-docs.py\<close> inspects\<close>

text \<open>
  The program reads Python modules with \<open>ast.parse\<close> and inspects the resulting tree with
  \<open>isinstance\<close> tests and attribute reads. The tree is modelled as two datatypes; a
  constructor stands for the node class of the same name, and an \<open>isinstance\<close> test followed
  by the attribute reads it guards is a pattern match.

  A constant carries its Python value. \<open>COther\<close> stands for the constants whose text is
  not computed here (floats, complex numbers, bytes, \<open>Ellipsis\<close>) and carries the text that
  \<open>str\<close> returns for it.
\<close>

datatype const =
    CStr string
  | CInt int
  | CBool bool
  | CNone
  | COther string

text \<open>
  Expressions. \<open>Index\<close> is the wrapper node that Python 3.8 puts around the slice of a
  subscript; from Python 3.9 on the parser never builds it and the slice is the expression
  itself. A keyword argument is a pair of its name (\<open>None\<close> for \<open>**kwargs\<close>) and its value; a
  key of a dictionary display is \<open>None\<close> for \<open>**mapping\<close>. \<open>OtherExpr\<close> is every expression
  class the program has no test for.
\<close>

datatype expr =
    Name string
  | Constant const
  | Attribute expr string
  | Subscript expr expr
  | Index expr
  | Tuple "expr list"
  | List "expr list"
  | Dict "expr option list" "expr list"
  | Call expr "expr list" "(string option \<times> expr) list"
  | OtherExpr

text \<open>
  Statements, reduced to what \<open>ast.walk\<close> can reach that is a statement or holds statements:
  \<open>ClassDef name decorator_list body\<close>, \<open>FunctionDef name decorator_list returns body\<close>,
  \<open>AnnAssign target annotation value\<close>, \<open>Expr value\<close>, \<open>Return value\<close>. \<open>OtherNode\<close> is any
  other node (an \<open>if\<close>, a loop, a \<open>try\<close>, one of its handlers, an \<open>async def\<close>, a simple
  statement) with the statements and handlers among its children, in the order of
  \<open>ast.iter_child_nodes\<close>. No expression contains a statement, so expressions are left out
  of the walk without changing the order in which statements are met.
\<close>

datatype stmt =
    ClassDef string "expr list" "stmt list"
  | FunctionDef string "expr list" "expr option" "stmt list"
  | AnnAssign expr expr "expr option"
  | Expr expr
  | Return "expr option"
  | OtherNode "stmt list"

text \<open>Exceptions that the program catches, as values.\<close>

datatype error =
    AttributeError
  | ValueError
  | SyntaxError string
  | OSError string

section \<open>Python's string operations\<close>

fun join :: "string \<Rightarrow> string list \<Rightarrow> string" where
  "join sep [] = []"
| "join sep [x] = x"
| "join sep (x # y # zs) = x @ sep @ join sep (y # zs)"

fun digits10 :: "nat \<Rightarrow> string" where
  "digits10 n =
     (if n < 10 then [char_of (48 + n)]
      else digits10 (n div 10) @ [char_of (48 + n mod 10)])"

declare digits10.simps [simp del]

definition str_int :: "int \<Rightarrow> string" where
  "str_int i = (if i < 0 then CHR ''-'' # digits10 (nat (- i)) else digits10 (nat i))"

text \<open>
  \<open>str(node.value)\<close> for the value of a constant that the interpreter converts. CPython
  refuses to convert an integer of more decimal digits than \<open>sys.get_int_max_str_digits()\<close>
  (4300 unless configured, 0 for no limit) and raises \<open>ValueError\<close>; \<open>py_str\<close> is the
  conversion without that refusal. The renderer and the functions of the extractor that are
  built on \<open>py_str\<close> describe the program on modules in which no integer constant that is
  converted exceeds the limit, and on every module when the limit is turned off. The
  conversion and the renderer with the limit are \<open>str_limit\<close>, \<open>get_type_annotation_limit\<close>
  and \<open>get_default_value_limit\<close> below.
\<close>

fun py_str :: "const \<Rightarrow> string" where
  "py_str (CStr s) = s"
| "py_str (CInt i) = str_int i"
| "py_str (CBool b) = (if b then ''True'' else ''False'')"
| "py_str CNone = ''None''"
| "py_str (COther s) = s"

text \<open>
  \<open>str.lower\<close>, \<open>str.strip\<close> and \<open>str.split('\n', 1)\<close> on ASCII text. A character is a byte
  here; bytes above 127 are left alone by \<open>lower\<close> and are no white space.
\<close>

definition lower_char :: "char \<Rightarrow> char" where
  "lower_char c =
     (let n = (of_char c :: nat) in if 65 \<le> n \<and> n \<le> 90 then char_of (n + 32) else c)"

definition lower :: "string \<Rightarrow> string" where
  "lower s = map lower_char s"

definition isspace :: "char \<Rightarrow> bool" where
  "isspace c = (let n = (of_char c :: nat) in (9 \<le> n \<and> n \<le> 13) \<or> (28 \<le> n \<and> n \<le> 32))"

definition strip :: "string \<Rightarrow> string" where
  "strip s = rev (dropWhile isspace (rev (dropWhile isspace s)))"

definition newline :: char where
  "newline = CHR 0x0A"

text \<open>
  \<open>s.split('\n', 1)\<close>: the text before the first newline, and the text after it when there
  is a newline (the list has then two elements, and one otherwise).
\<close>

definition split_newline_1 :: "string \<Rightarrow> string \<times> string option" where
  "split_newline_1 s =
     (if newline \<in> set s
      then (takeWhile (\<lambda>c. c \<noteq> newline) s, Some (tl (dropWhile (\<lambda>c. c \<noteq> newline) s)))
      else (s, None))"

text \<open>\<open>s.endswith(suffix)\<close> and \<open>os.path.join(directory, filename)\<close> for a relative file name.\<close>

definition endswith :: "string \<Rightarrow> string \<Rightarrow> bool" where
  "endswith s suffix =
     (length suffix \<le> length s \<and> drop (length s - length suffix) s = suffix)"

definition path_join :: "string \<Rightarrow> string \<Rightarrow> string" where
  "path_join directory filename =
     (if directory = [] \<or> last directory = CHR ''/'' then directory @ filename
      else directory @ ''/'' @ filename)"

section \<open>Raising and catching\<close>

text \<open>
  A computation that may raise returns \<open>Inl\<close> of the exception or \<open>Inr\<close> of its value;
  \<open>bind\<close> runs the next step unless an exception is on its way.
\<close>

definition bind :: "error + 'a \<Rightarrow> ('a \<Rightarrow> error + 'b) \<Rightarrow> error + 'b" where
  "bind m f = (case m of Inl e \<Rightarrow> Inl e | Inr x \<Rightarrow> f x)"

lemma bind_Inr [simp]: "bind (Inr x) f = f x"
  by (simp add: bind_def)

lemma bind_Inl [simp]: "bind (Inl e) f = Inl e"
  by (simp add: bind_def)

lemma bind_cong [fundef_cong]:
  "m = m' \<Longrightarrow> (\<And>x. m' = Inr x \<Longrightarrow> f x = f' x) \<Longrightarrow> bind m f = bind m' f'"
  by (cases m') (simp_all add: bind_def)

section \<open>The expression renderer\<close>

text \<open>
  \<open>_get_type_annotation\<close>. The list comprehensions over \<open>elts\<close> and \<open>args\<close> are the second
  function. The branch for \<open>ast.Call\<close> returns only when the callee is a name and falls
  through to the final \<open>return "Any"\<close> otherwise.
\<close>

fun get_type_annotation :: "expr \<Rightarrow> error + string"
  and get_type_annotations :: "expr list \<Rightarrow> error + string list" where
  "get_type_annotation (Name i) = Inr i"
| "get_type_annotation (Subscript v sl) =
     bind (get_type_annotation v) (\<lambda>base.
       (case sl of
          Index slice_value \<Rightarrow>
            (case slice_value of
               Tuple elts \<Rightarrow>
                 bind (get_type_annotations elts) (\<lambda>params.
                   Inr (base @ ''['' @ join '', '' params @ '']''))
             | _ \<Rightarrow>
                 bind (get_type_annotation slice_value) (\<lambda>p.
                   Inr (base @ ''['' @ p @ '']'')))
        | _ \<Rightarrow>
            bind (get_type_annotation sl) (\<lambda>p. Inr (base @ ''['' @ p @ '']''))))"
| "get_type_annotation (Attribute v attr) =
     bind (get_type_annotation v) (\<lambda>value. Inr (value @ ''.'' @ attr))"
| "get_type_annotation (Constant c) = Inr (py_str c)"
| "get_type_annotation (Tuple elts) =
     bind (get_type_annotations elts) (\<lambda>ps. Inr (''('' @ join '', '' ps @ '')''))"
| "get_type_annotation (Call func args keywords) =
     (case func of
        Name func_name \<Rightarrow>
          bind (get_type_annotations args) (\<lambda>as.
            Inr (func_name @ ''('' @ join '', '' as @ '')''))
      | _ \<Rightarrow> Inr ''Any'')"
| "get_type_annotation (Index v) = Inr ''Any''"
| "get_type_annotation (List elts) = Inr ''Any''"
| "get_type_annotation (Dict keys vals) = Inr ''Any''"
| "get_type_annotation OtherExpr = Inr ''Any''"
| "get_type_annotations [] = Inr []"
| "get_type_annotations (e # es) =
     bind (get_type_annotation e) (\<lambda>s.
       bind (get_type_annotations es) (\<lambda>ss. Inr (s # ss)))"

text \<open>
  \<open>_get_default_value\<close>. A key of a dictionary display may be \<open>None\<close>; the function is then
  called on \<open>None\<close>, which is an instance of no node class, and returns \<open>"None"\<close>.
\<close>

fun get_default_value :: "expr \<Rightarrow> error + string"
  and get_default_values :: "expr list \<Rightarrow> error + string list"
  and get_default_value_keys :: "expr option list \<Rightarrow> error + string list" where
  "get_default_value (Constant c) = Inr (py_str c)"
| "get_default_value (Name i) = Inr i"
| "get_default_value (List elts) =
     bind (get_default_values elts) (\<lambda>es. Inr (''['' @ join '', '' es @ '']''))"
| "get_default_value (Dict keys vals) =
     bind (get_default_value_keys keys) (\<lambda>ks.
       bind (get_default_values vals) (\<lambda>vs.
         Inr (''{'' @ join '', '' (map (\<lambda>(k, v). k @ '': '' @ v) (zip ks vs)) @ ''}'')))"
| "get_default_value (Call func args keywords) =
     (case func of
        Name func_name \<Rightarrow>
          bind (get_default_values args) (\<lambda>as.
            Inr (func_name @ ''('' @ join '', '' as @ '')''))
      | _ \<Rightarrow> Inr ''None'')"
| "get_default_value (Attribute v attr) = Inr ''None''"
| "get_default_value (Subscript v sl) = Inr ''None''"
| "get_default_value (Index v) = Inr ''None''"
| "get_default_value (Tuple elts) = Inr ''None''"
| "get_default_value OtherExpr = Inr ''None''"
| "get_default_values [] = Inr []"
| "get_default_values (e # es) =
     bind (get_default_value e) (\<lambda>s.
       bind (get_default_values es) (\<lambda>ss. Inr (s # ss)))"
| "get_default_value_keys [] = Inr []"
| "get_default_value_keys (k # ks) =
     bind (case k of None \<Rightarrow> Inr ''None'' | Some e \<Rightarrow> get_default_value e) (\<lambda>s.
       bind (get_default_value_keys ks) (\<lambda>ss. Inr (s # ss)))"

subsection \<open>The renderer under the interpreter's limit on integer conversion\<close>

text \<open>
  The default of \<open>sys.get_int_max_str_digits()\<close>, and the test of \<open>str\<close> on an integer: with
  a limit other than 0, an integer of more than \<open>limit\<close> decimal digits, that is, of absolute
  value at least \<open>10 ^ limit\<close>, is refused.
\<close>

definition int_max_str_digits :: nat where
  "int_max_str_digits = 4300"

definition exceeds_max_str_digits :: "nat \<Rightarrow> int \<Rightarrow> bool" where
  "exceeds_max_str_digits limit i = (limit \<noteq> 0 \<and> 10 ^ limit \<le> \<bar>i\<bar>)"

text \<open>\<open>str(node.value)\<close> under a limit.\<close>

fun str_limit :: "nat \<Rightarrow> const \<Rightarrow> error + string" where
  "str_limit limit (CInt i) =
     (if exceeds_max_str_digits limit i then Inl ValueError else Inr (py_str (CInt i)))"
| "str_limit limit c = Inr (py_str c)"

text \<open>
  \<open>_get_type_annotation\<close> and \<open>_get_default_value\<close> under a limit: the functions above, with
  \<open>str(node.value)\<close> raising where the interpreter refuses the conversion.
\<close>

fun get_type_annotation_limit :: "nat \<Rightarrow> expr \<Rightarrow> error + string"
  and get_type_annotations_limit :: "nat \<Rightarrow> expr list \<Rightarrow> error + string list" where
  "get_type_annotation_limit limit (Name i) = Inr i"
| "get_type_annotation_limit limit (Subscript v sl) =
     bind (get_type_annotation_limit limit v) (\<lambda>base.
       (case sl of
          Index slice_value \<Rightarrow>
            (case slice_value of
               Tuple elts \<Rightarrow>
                 bind (get_type_annotations_limit limit elts) (\<lambda>params.
                   Inr (base @ ''['' @ join '', '' params @ '']''))
             | _ \<Rightarrow>
                 bind (get_type_annotation_limit limit slice_value) (\<lambda>p.
                   Inr (base @ ''['' @ p @ '']'')))
        | _ \<Rightarrow>
            bind (get_type_annotation_limit limit sl) (\<lambda>p. Inr (base @ ''['' @ p @ '']''))))"
| "get_type_annotation_limit limit (Attribute v attr) =
     bind (get_type_annotation_limit limit v) (\<lambda>value. Inr (value @ ''.'' @ attr))"
| "get_type_annotation_limit limit (Constant c) = str_limit limit c"
| "get_type_annotation_limit limit (Tuple elts) =
     bind (get_type_annotations_limit limit elts) (\<lambda>ps. Inr (''('' @ join '', '' ps @ '')''))"
| "get_type_annotation_limit limit (Call func args keywords) =
     (case func of
        Name func_name \<Rightarrow>
          bind (get_type_annotations_limit limit args) (\<lambda>as.
            Inr (func_name @ ''('' @ join '', '' as @ '')''))
      | _ \<Rightarrow> Inr ''Any'')"
| "get_type_annotation_limit limit (Index v) = Inr ''Any''"
| "get_type_annotation_limit limit (List elts) = Inr ''Any''"
| "get_type_annotation_limit limit (Dict keys vals) = Inr ''Any''"
| "get_type_annotation_limit limit OtherExpr = Inr ''Any''"
| "get_type_annotations_limit limit [] = Inr []"
| "get_type_annotations_limit limit (e # es) =
     bind (get_type_annotation_limit limit e) (\<lambda>s.
       bind (get_type_annotations_limit limit es) (\<lambda>ss. Inr (s # ss)))"

fun get_default_value_limit :: "nat \<Rightarrow> expr \<Rightarrow> error + string"
  and get_default_values_limit :: "nat \<Rightarrow> expr list \<Rightarrow> error + string list"
  and get_default_value_keys_limit :: "nat \<Rightarrow> expr option list \<Rightarrow> error + string list" where
  "get_default_value_limit limit (Constant c) = str_limit limit c"
| "get_default_value_limit limit (Name i) = Inr i"
| "get_default_value_limit limit (List elts) =
     bind (get_default_values_limit limit elts) (\<lambda>es. Inr (''['' @ join '', '' es @ '']''))"
| "get_default_value_limit limit (Dict keys vals) =
     bind (get_default_value_keys_limit limit keys) (\<lambda>ks.
       bind (get_default_values_limit limit vals) (\<lambda>vs.
         Inr (''{'' @ join '', '' (map (\<lambda>(k, v). k @ '': '' @ v) (zip ks vs)) @ ''}'')))"
| "get_default_value_limit limit (Call func args keywords) =
     (case func of
        Name func_name \<Rightarrow>
          bind (get_default_values_limit limit args) (\<lambda>as.
            Inr (func_name @ ''('' @ join '', '' as @ '')''))
      | _ \<Rightarrow> Inr ''None'')"
| "get_default_value_limit limit (Attribute v attr) = Inr ''None''"
| "get_default_value_limit limit (Subscript v sl) = Inr ''None''"
| "get_default_value_limit limit (Index v) = Inr ''None''"
| "get_default_value_limit limit (Tuple elts) = Inr ''None''"
| "get_default_value_limit limit OtherExpr = Inr ''None''"
| "get_default_values_limit limit [] = Inr []"
| "get_default_values_limit limit (e # es) =
     bind (get_default_value_limit limit e) (\<lambda>s.
       bind (get_default_values_limit limit es) (\<lambda>ss. Inr (s # ss)))"
| "get_default_value_keys_limit limit [] = Inr []"
| "get_default_value_keys_limit limit (k # ks) =
     bind (case k of None \<Rightarrow> Inr ''None'' | Some e \<Rightarrow> get_default_value_limit limit e) (\<lambda>s.
       bind (get_default_value_keys_limit limit ks) (\<lambda>ss. Inr (s # ss)))"

text \<open>\<open>_get_string_value\<close> and \<open>_get_list_values\<close>.\<close>

fun get_string_value :: "expr \<Rightarrow> string" where
  "get_string_value (Constant (CStr s)) = s"
| "get_string_value _ = []"

fun get_list_values :: "expr \<Rightarrow> string list" where
  "get_list_values (List elts) = map get_string_value elts"
| "get_list_values _ = []"

text \<open>
  \<open>_extract_return_type_from_decorator\<close>: the type named by a decorator \<open>@returns(T)\<close>.
\<close>

fun extract_return_type_from_decorator :: "expr \<Rightarrow> error + string" where
  "extract_return_type_from_decorator (Call (Name f) args keywords) =
     (if f = ''returns''
      then (case args of [] \<Rightarrow> Inr [] | a # _ \<Rightarrow> get_type_annotation a)
      else Inr [])"
| "extract_return_type_from_decorator _ = Inr []"

section \<open>The records and the extractor's state\<close>

text \<open>
  The dictionaries \<open>{"name", "type", "description"}\<close> of an output field and
  \<open>{"name", "type", "description", "default"}\<close> of an input field, and the dictionary
  \<open>{"type", "fields"}\<close> of an output. A description is the value of a constant, which the
  program does not require to be a string.
\<close>

record field =
  field_name :: string
  field_type :: string
  field_description :: const

record input_field =
  input_name :: string
  input_type :: string
  input_description :: const
  input_default :: string

record output_info =
  output_type :: string
  output_fields :: "field list"

text \<open>The classes \<open>NodeInfo\<close>, \<open>FunctionInfo\<close> and \<open>OutputDefinitionInfo\<close>.\<close>

record NodeInfo =
  name :: string
  title :: string
  description :: string
  long_description :: string
  category :: string
  tags :: "string list"
  version :: string
  inputs :: "input_field list"
  node_output :: output_info

record FunctionInfo =
  function_name :: string
  function_description :: string

record OutputDefinitionInfo =
  def_name :: string
  def_fields :: "field list"

text \<open>
  A Python dictionary keeps its keys in the order of their first insertion: storing under a
  key that is present replaces the value where it stands, storing under a new key appends.
\<close>

fun dict_set :: "'k \<Rightarrow> 'v \<Rightarrow> ('k \<times> 'v) list \<Rightarrow> ('k \<times> 'v) list" where
  "dict_set k v [] = [(k, v)]"
| "dict_set k v (kv # kvs) = (if fst kv = k then (fst kv, v) # kvs else kv # dict_set k v kvs)"

definition dict_get :: "('k \<times> 'v) list \<Rightarrow> 'k \<Rightarrow> 'v option" where
  "dict_get d k = map_of d k"

text \<open>The attributes of a \<open>DocExtractor\<close> that extraction writes.\<close>

record DocExtractor =
  nodes :: "NodeInfo list"
  function_list :: "FunctionInfo list"
  output_defs :: "(string \<times> OutputDefinitionInfo) list"

definition init :: DocExtractor where
  "init = \<lparr>nodes = [], function_list = [], output_defs = []\<rparr>"

section \<open>Walking a tree\<close>

text \<open>
  \<open>ast.walk\<close> keeps a queue: it takes the first node, puts the node's children at the end of
  the queue and yields the node. The patched \<open>ast.parse\<close> gives every node its parent; the
  program only asks whether the parent is the module, so a node of the queue is paired with
  the answer.
\<close>

fun iter_child_nodes :: "stmt \<Rightarrow> stmt list" where
  "iter_child_nodes (ClassDef nm decorator_list body) = body"
| "iter_child_nodes (FunctionDef nm decorator_list returns body) = body"
| "iter_child_nodes (OtherNode cs) = cs"
| "iter_child_nodes (AnnAssign target annotation val) = []"
| "iter_child_nodes (Expr val) = []"
| "iter_child_nodes (Return val) = []"

fun node_count :: "stmt \<Rightarrow> nat" where
  "node_count (ClassDef nm decorator_list body) = Suc (sum_list (map node_count body))"
| "node_count (FunctionDef nm decorator_list returns body) =
     Suc (sum_list (map node_count body))"
| "node_count (OtherNode cs) = Suc (sum_list (map node_count cs))"
| "node_count (AnnAssign target annotation val) = 1"
| "node_count (Expr val) = 1"
| "node_count (Return val) = 1"

lemma iter_child_nodes_count:
  "sum_list (map node_count (iter_child_nodes n)) < node_count n"
  by (cases n) simp_all

function walk :: "(bool \<times> stmt) list \<Rightarrow> (bool \<times> stmt) list" where
  "walk [] = []"
| "walk (n # todo) = n # walk (todo @ map (Pair False) (iter_child_nodes (snd n)))"
  by pat_completeness auto
termination
proof (relation "measure (\<lambda>q. sum_list (map (node_count \<circ> snd) q))")
  show "wf (measure (\<lambda>q. sum_list (map (node_count \<circ> snd) q)))"
    by simp
next
  fix n :: "bool \<times> stmt" and todo :: "(bool \<times> stmt) list"
  have "map (node_count \<circ> snd) (map (Pair False) (iter_child_nodes (snd n))) =
        map node_count (iter_child_nodes (snd n))"
    by (simp add: comp_def)
  then show "(todo @ map (Pair False) (iter_child_nodes (snd n)), n # todo)
        \<in> measure (\<lambda>q. sum_list (map (node_count \<circ> snd) q))"
    using iter_child_nodes_count [of "snd n"] by (simp del: map_map)
qed

text \<open>\<open>ast.walk(tree)\<close> for a module: the module itself is no class and no function.\<close>

definition walk_module :: "stmt list \<Rightarrow> (bool \<times> stmt) list" where
  "walk_module body = walk (map (Pair True) body)"

section \<open>Loops that may raise\<close>

text \<open>
  A loop that builds a list from the items that give an element; a loop over a local
  accumulator, lost when an iteration raises; and a loop inside a \<open>try\<close> over the
  extractor's state, which keeps what the iterations before the raising one have written.
\<close>

fun collect :: "('a \<Rightarrow> error + 'b option) \<Rightarrow> 'a list \<Rightarrow> error + 'b list" where
  "collect f [] = Inr []"
| "collect f (x # xs) =
     bind (f x) (\<lambda>r.
       bind (collect f xs) (\<lambda>rs. Inr (case r of None \<Rightarrow> rs | Some y \<Rightarrow> y # rs)))"

fun fold_raise :: "('s \<Rightarrow> 'a \<Rightarrow> error + 's) \<Rightarrow> 's \<Rightarrow> 'a list \<Rightarrow> error + 's" where
  "fold_raise step s [] = Inr s"
| "fold_raise step s (x # xs) = bind (step s x) (\<lambda>s'. fold_raise step s' xs)"

fun try_loop :: "('s \<Rightarrow> 'a \<Rightarrow> error + 's) \<Rightarrow> 's \<Rightarrow> 'a list \<Rightarrow> 's \<times> error option" where
  "try_loop step s [] = (s, None)"
| "try_loop step s (x # xs) =
     (case step s x of Inl e \<Rightarrow> (s, Some e) | Inr s' \<Rightarrow> try_loop step s' xs)"

section \<open>The marker recognizer\<close>

text \<open>
  The test on a decorator: a call of the name \<open>marker\<close>. \<open>find_marker\<close> is the loop over
  \<open>node.decorator_list\<close> that handles the first decorator passing the test and breaks; it
  returns that decorator's arguments and keywords.
\<close>

fun find_marker ::
  "string \<Rightarrow> expr list \<Rightarrow> (expr list \<times> (string option \<times> expr) list) option" where
  "find_marker marker [] = None"
| "find_marker marker (decorator # ds) =
     (case decorator of
        Call (Name f) args keywords \<Rightarrow>
          if f = marker then Some (args, keywords) else find_marker marker ds
      | _ \<Rightarrow> find_marker marker ds)"

subsection \<open>\<open>_process_output_definition\<close>\<close>

text \<open>
  The loop over \<open>item.value.keywords\<close> of an output field: the last keyword \<open>description\<close>
  whose value is a constant gives the description.
\<close>

fun keyword_description :: "(string option \<times> expr) list \<Rightarrow> const \<Rightarrow> const" where
  "keyword_description [] d = d"
| "keyword_description (kw # kws) d =
     keyword_description kws
       (case snd kw of
          Constant c \<Rightarrow> if fst kw = Some ''description'' then c else d
        | _ \<Rightarrow> d)"

fun output_field_of :: "stmt \<Rightarrow> error + field option" where
  "output_field_of (AnnAssign target annotation val) =
     (let fname = (case target of Name i \<Rightarrow> Some i | _ \<Rightarrow> None) in
      bind (get_type_annotation annotation) (\<lambda>ftype.
        let d = (case val of
                   Some (Call func args keywords) \<Rightarrow> keyword_description keywords (CStr [])
                 | _ \<Rightarrow> CStr [])
        in Inr (case fname of
                  None \<Rightarrow> None
                | Some n \<Rightarrow>
                    if n \<noteq> []
                    then Some \<lparr>field_name = n, field_type = ftype, field_description = d\<rparr>
                    else None)))"
| "output_field_of _ = Inr None"

definition process_output_definition ::
  "DocExtractor \<Rightarrow> string \<Rightarrow> expr list \<Rightarrow> stmt list \<Rightarrow> error + DocExtractor" where
  "process_output_definition self nm decorator_list body =
     (case find_marker ''invocation_output'' decorator_list of
        None \<Rightarrow> Inr self
      | Some decorator \<Rightarrow>
          bind (collect output_field_of body) (\<lambda>fs.
            Inr (self\<lparr>output_defs :=
                   dict_set nm \<lparr>def_name = nm, def_fields = fs\<rparr> (output_defs self)\<rparr>)))"

subsection \<open>\<open>_process_invocation\<close>\<close>

text \<open>
  The loop over the marker's keywords; the accumulator is \<open>(title, category, tags, version)\<close>.
\<close>

fun marker_keywords ::
  "(string option \<times> expr) list \<Rightarrow> string \<times> string \<times> string list \<times> string \<Rightarrow>
   string \<times> string \<times> string list \<times> string" where
  "marker_keywords [] acc = acc"
| "marker_keywords (kw # kws) (ttl, cat, tgs, ver) =
     marker_keywords kws
       (if fst kw = Some ''title'' then (get_string_value (snd kw), cat, tgs, ver)
        else if fst kw = Some ''category'' then (ttl, get_string_value (snd kw), tgs, ver)
        else if fst kw = Some ''tags'' then (ttl, cat, get_list_values (snd kw), ver)
        else if fst kw = Some ''version'' then (ttl, cat, tgs, get_string_value (snd kw))
        else (ttl, cat, tgs, ver))"

text \<open>
  The docstring of a class: the stripped first line and the stripped remainder of the
  stripped string constant that is the first statement of the body.
\<close>

definition docstring_of :: "stmt list \<Rightarrow> string \<times> string" where
  "docstring_of body =
     (case body of
        Expr (Constant (CStr v)) # rest \<Rightarrow>
          (let docstring = strip v in
           if docstring \<noteq> [] then
             (case split_newline_1 docstring of
                (first, None) \<Rightarrow> (strip first, [])
              | (first, Some remainder) \<Rightarrow> (strip first, strip remainder))
           else ([], []))
      | _ \<Rightarrow> ([], []))"

text \<open>
  The loop over \<open>item.value.keywords\<close> of an input field; the accumulator is
  \<open>(description, default)\<close>.
\<close>

fun input_keywords ::
  "(string option \<times> expr) list \<Rightarrow> const \<times> string \<Rightarrow> error + const \<times> string" where
  "input_keywords [] acc = Inr acc"
| "input_keywords (kw # kws) (d, dflt) =
     (case (if fst kw = Some ''description''
            then (case snd kw of Constant c \<Rightarrow> Some c | _ \<Rightarrow> None) else None) of
        Some c \<Rightarrow> input_keywords kws (c, dflt)
      | None \<Rightarrow>
          if fst kw = Some ''default''
          then bind (get_default_value (snd kw)) (\<lambda>v. input_keywords kws (d, v))
          else input_keywords kws (d, dflt))"

fun input_field_of :: "stmt \<Rightarrow> error + input_field option" where
  "input_field_of (AnnAssign target annotation val) =
     (let fname = (case target of Name i \<Rightarrow> Some i | _ \<Rightarrow> None) in
      bind (get_type_annotation annotation) (\<lambda>ftype.
        bind (case val of
                Some (Call func args keywords) \<Rightarrow> input_keywords keywords (CStr [], ''None'')
              | _ \<Rightarrow> Inr (CStr [], ''None'')) (\<lambda>(d, dflt).
          Inr (case fname of
                 None \<Rightarrow> None
               | Some n \<Rightarrow>
                   if n \<noteq> []
                   then Some \<lparr>input_name = n, input_type = ftype,
                               input_description = d, input_default = dflt\<rparr>
                   else None))))"
| "input_field_of _ = Inr None"

text \<open>
  The return type read from the \<open>invoke\<close> method's decorators and annotation. The program
  computes it and never reads it.
\<close>

fun returns_decorators :: "expr list \<Rightarrow> string \<Rightarrow> error + string" where
  "returns_decorators [] return_type = Inr return_type"
| "returns_decorators (decorator # ds) return_type =
     (case decorator of
        Name i \<Rightarrow>
          if i = ''returns''
          then bind (extract_return_type_from_decorator decorator) (returns_decorators ds)
          else returns_decorators ds return_type
      | _ \<Rightarrow> returns_decorators ds return_type)"

definition return_type_of :: "expr list \<Rightarrow> expr option \<Rightarrow> error + string" where
  "return_type_of decorator_list returns =
     bind (returns_decorators decorator_list []) (\<lambda>return_type.
       case returns of
         Some r \<Rightarrow> if return_type = [] then get_type_annotation r else Inr return_type
       | None \<Rightarrow> Inr return_type)"

text \<open>
  The attribute \<open>id\<close>, which only a \<open>Name\<close> has. The loop over the return statements reads it
  from the base of an attribute access without a test.
\<close>

fun attr_id :: "expr \<Rightarrow> error + string" where
  "attr_id (Name i) = Inr i"
| "attr_id _ = Inl AttributeError"

text \<open>
  One iteration of the loop over \<open>ast.walk(invoke_method)\<close>: a return statement whose value is
  a call of a name or of an attribute access replaces the output found so far.
\<close>

fun return_statement ::
  "(string \<times> OutputDefinitionInfo) list \<Rightarrow> output_info \<Rightarrow> stmt \<Rightarrow> error + output_info" where
  "return_statement defs out (Return (Some (Call func args keywords))) =
     (case func of
        Name output_class \<Rightarrow>
          (case dict_get defs output_class of
             Some d \<Rightarrow> Inr \<lparr>output_type = output_class, output_fields = def_fields d\<rparr>
           | None \<Rightarrow> Inr \<lparr>output_type = output_class, output_fields = []\<rparr>)
      | Attribute v attr \<Rightarrow>
          bind (attr_id v) (\<lambda>i.
            Inr \<lparr>output_type = i @ ''.'' @ attr @ ''(...)'', output_fields = []\<rparr>)
      | _ \<Rightarrow> Inr out)"
| "return_statement defs out _ = Inr out"

definition is_invoke :: "stmt \<Rightarrow> bool" where
  "is_invoke item = (case item of FunctionDef nm ds r b \<Rightarrow> nm = ''invoke'' | _ \<Rightarrow> False)"

definition no_output :: output_info where
  "no_output = \<lparr>output_type = [], output_fields = []\<rparr>"

definition invoke_output ::
  "(string \<times> OutputDefinitionInfo) list \<Rightarrow> stmt list \<Rightarrow> error + output_info" where
  "invoke_output defs body =
     (case find is_invoke body of
        Some (FunctionDef nm decorator_list returns mbody) \<Rightarrow>
          bind (return_type_of decorator_list returns) (\<lambda>return_type.
            fold_raise (return_statement defs) no_output
              (map snd (walk [(False, FunctionDef nm decorator_list returns mbody)])))
      | _ \<Rightarrow> Inr no_output)"

text \<open>
  The body of the \<open>if\<close> of \<open>_process_invocation\<close> up to the creation of the \<open>NodeInfo\<close>,
  for the arguments and keywords of the marker and the body of the class.
\<close>

definition node_info ::
  "(string \<times> OutputDefinitionInfo) list \<Rightarrow> expr list \<Rightarrow> (string option \<times> expr) list \<Rightarrow>
   stmt list \<Rightarrow> error + NodeInfo" where
  "node_info defs args keywords body =
     (let nm = (case args of [] \<Rightarrow> [] | a # rest \<Rightarrow> get_string_value a);
          (ttl, cat, tgs, ver) = marker_keywords keywords ([], [], [], []);
          (node_description, long_desc) = docstring_of body
      in bind (collect input_field_of body) (\<lambda>ins.
           bind (invoke_output defs body) (\<lambda>out.
             Inr \<lparr>name = nm, title = ttl, description = node_description,
                  long_description = long_desc, category = cat, tags = tgs,
                  version = ver, inputs = ins, node_output = out\<rparr>)))"

definition process_invocation ::
  "DocExtractor \<Rightarrow> expr list \<Rightarrow> stmt list \<Rightarrow> error + DocExtractor" where
  "process_invocation self decorator_list body =
     (case find_marker ''invocation'' decorator_list of
        None \<Rightarrow> Inr self
      | Some (args, keywords) \<Rightarrow>
          bind (node_info (output_defs self) args keywords body) (\<lambda>ni.
            Inr (self\<lparr>nodes := nodes self @ [ni]\<rparr>)))"

subsection \<open>\<open>_process_function\<close>\<close>

definition process_function :: "DocExtractor \<Rightarrow> string \<Rightarrow> stmt list \<Rightarrow> DocExtractor" where
  "process_function self nm body =
     (let d = (case body of
                 Expr (Constant (CStr v)) # rest \<Rightarrow>
                   (let docstring = strip v in
                    if docstring \<noteq> [] then strip (fst (split_newline_1 docstring)) else [])
               | _ \<Rightarrow> [])
      in self\<lparr>function_list := function_list self @
           [\<lparr>function_name = nm, function_description = d\<rparr>]\<rparr>)"

section \<open>Processing a file and a directory\<close>

text \<open>
  What \<open>ast.parse\<close> makes of the text of a file: it raises, or it returns a module with this
  body. What \<open>open\<close> and \<open>read\<close> make of a file: they raise, or they return the text.
\<close>

datatype content =
    Unparsable error
  | Module "stmt list"

datatype source_file =
    Unreadable error
  | Readable content

text \<open>The lines printed to the error stream: the path and the exception.\<close>

datatype diagnostic =
    Error_processing string error
  | Error_parsing string error

text \<open>The bodies of the two loops of \<open>_process_file\<close>.\<close>

fun first_pass :: "DocExtractor \<Rightarrow> bool \<times> stmt \<Rightarrow> error + DocExtractor" where
  "first_pass self (toplevel, ClassDef nm decorator_list body) =
     process_output_definition self nm decorator_list body"
| "first_pass self (toplevel, other) = Inr self"

fun second_pass :: "DocExtractor \<Rightarrow> bool \<times> stmt \<Rightarrow> error + DocExtractor" where
  "second_pass self (toplevel, ClassDef nm decorator_list body) =
     process_invocation self decorator_list body"
| "second_pass self (toplevel, FunctionDef nm decorator_list returns body) =
     Inr (if toplevel then process_function self nm body else self)"
| "second_pass self (toplevel, other) = Inr self"

text \<open>
  \<open>_process_file\<close>: everything is inside one \<open>try\<close>, whose handler prints the exception. What
  was written to the extractor before the exception stays.
\<close>

definition process_file ::
  "DocExtractor \<Rightarrow> content \<Rightarrow> string \<Rightarrow> DocExtractor \<times> diagnostic list" where
  "process_file self text filepath =
     (case text of
        Module body \<Rightarrow>
          (let tree = walk_module body in
           case try_loop first_pass self tree of
             (self1, Some e) \<Rightarrow> (self1, [Error_parsing filepath e])
           | (self1, None) \<Rightarrow>
               (case try_loop second_pass self1 tree of
                  (self2, Some e) \<Rightarrow> (self2, [Error_parsing filepath e])
                | (self2, None) \<Rightarrow> (self2, [])))
      | Unparsable e \<Rightarrow> (self, [Error_parsing filepath e]))"

text \<open>
  \<open>extract_docs\<close>: the loop over \<open>os.listdir\<close>, given as the list of the file names with what
  reading and parsing make of each file, and the final sort. \<open>NodeInfo.__lt__\<close> compares the
  lowered titles, and \<open>list.sort\<close> is stable.
\<close>

fun extract_files ::
  "string \<Rightarrow> DocExtractor \<Rightarrow> (string \<times> source_file) list \<Rightarrow>
   DocExtractor \<times> diagnostic list" where
  "extract_files directory self [] = (self, [])"
| "extract_files directory self ((filename, file) # rest) =
     (if endswith filename ''.py'' then
        (let filepath = path_join directory filename;
             (self1, log1) =
               (case file of
                  Unreadable e \<Rightarrow> (self, [Error_processing filepath e])
                | Readable text \<Rightarrow> process_file self text filepath);
             (self2, log2) = extract_files directory self1 rest
         in (self2, log1 @ log2))
      else extract_files directory self rest)"

definition sort_nodes :: "NodeInfo list \<Rightarrow> NodeInfo list" where
  "sort_nodes ns = sort_key (\<lambda>n. lower (title n)) ns"

definition extract_docs ::
  "string \<Rightarrow> (string \<times> source_file) list \<Rightarrow> DocExtractor \<times> diagnostic list" where
  "extract_docs directory listing =
     (let (self, log) = extract_files directory init listing
      in (self\<lparr>nodes := sort_nodes (nodes self)\<rparr>, log))"

section \<open>Notions used in the statements\<close>

text \<open>A computation succeeds when it returns a value, that is, when it does not raise.\<close>

definition succeeds :: "error + 'a \<Rightarrow> bool" where
  "succeeds m = (case m of Inl e \<Rightarrow> False | Inr x \<Rightarrow> True)"

text \<open>
  The shapes for which \<open>_get_type_annotation\<close> and \<open>_get_default_value\<close> have a branch that
  returns: the node classes of their \<open>isinstance\<close> tests, a call only when its callee is a
  name.
\<close>

fun type_annotation_shape :: "expr \<Rightarrow> bool" where
  "type_annotation_shape (Name i) = True"
| "type_annotation_shape (Subscript v sl) = True"
| "type_annotation_shape (Attribute v attr) = True"
| "type_annotation_shape (Constant c) = True"
| "type_annotation_shape (Tuple elts) = True"
| "type_annotation_shape (Call func args kws) = (case func of Name f \<Rightarrow> True | _ \<Rightarrow> False)"
| "type_annotation_shape other = False"

fun default_value_shape :: "expr \<Rightarrow> bool" where
  "default_value_shape (Constant c) = True"
| "default_value_shape (Name i) = True"
| "default_value_shape (List elts) = True"
| "default_value_shape (Dict ks vs) = True"
| "default_value_shape (Call func args kws) = (case func of Name f \<Rightarrow> True | _ \<Rightarrow> False)"
| "default_value_shape other = False"



text \<open>
  The class declarations of a module that carry a marker: the classes that \<open>ast.walk\<close> meets
  and that have a decorator calling the name \<open>marker\<close>.
\<close>

fun carries_marker :: "string \<Rightarrow> stmt \<Rightarrow> bool" where
  "carries_marker marker (ClassDef nm decorator_list body) =
     (find_marker marker decorator_list \<noteq> None)"
| "carries_marker marker other = False"

definition marked_classes :: "string \<Rightarrow> stmt list \<Rightarrow> stmt list" where
  "marked_classes marker body = filter (carries_marker marker) (map snd (walk_module body))"

text \<open>
  Examples for the statements: a unit of work that has a title and nothing else; the marker
  \<open>@invocation("node", title=...)\<close>; a method \<open>invoke\<close> with a given body; a class with the
  marker and the method; and the statement \<open>return callee()\<close>.
\<close>

definition titled :: "string \<Rightarrow> NodeInfo" where
  "titled t = \<lparr>name = [], title = t, description = [], long_description = [], category = [],
     tags = [], version = [], inputs = [], node_output = no_output\<rparr>"

definition invocation_marker :: "string \<Rightarrow> expr" where
  "invocation_marker ttl =
     Call (Name ''invocation'') [Constant (CStr ''node'')] [(Some ''title'', Constant (CStr ttl))]"

definition invoke_method :: "stmt list \<Rightarrow> stmt" where
  "invoke_method invoke_body = FunctionDef ''invoke'' [] None invoke_body"

definition unit_of_work :: "string \<Rightarrow> stmt list \<Rightarrow> stmt" where
  "unit_of_work ttl invoke_body =
     ClassDef ''Node'' [invocation_marker ttl] [invoke_method invoke_body]"

definition returning :: "expr \<Rightarrow> stmt" where
  "returning callee = Return (Some (Call callee [] []))"

text \<open>
  The value of the literal \<open>0x\<close> followed by 5000 digits \<open>f\<close>, which has 6021 decimal
  digits.
\<close>

definition huge :: int where
  "huge = 16 ^ 5000 - 1"

text \<open>
  The output definition that a node of a walk gives for a name: the fields of a class of that
  name that carries the output-definition marker. The output definition that a walk gives for
  a name: that of the last such class of the walk, wherever it stands.
\<close>

fun definition_of :: "string \<Rightarrow> stmt \<Rightarrow> field list option" where
  "definition_of k (ClassDef nm decorator_list body) =
     (if nm = k \<and> find_marker ''invocation_output'' decorator_list \<noteq> None
      then (case collect output_field_of body of Inr fs \<Rightarrow> Some fs | Inl e \<Rightarrow> None)
      else None)"
| "definition_of k other = None"

fun module_definition :: "string \<Rightarrow> (bool \<times> stmt) list \<Rightarrow> field list option" where
  "module_definition k [] = None"
| "module_definition k (n # rest) =
     (case module_definition k rest of
        Some fs \<Rightarrow> Some fs
      | None \<Rightarrow> definition_of k (snd n))"

text \<open>
  The records of a walk: the record of every class of the walk that carries the unit-of-work
  marker, built against a given registry, in the order of the walk.
\<close>

fun record_of :: "(string \<times> OutputDefinitionInfo) list \<Rightarrow> stmt \<Rightarrow> NodeInfo list" where
  "record_of defs (ClassDef nm decorator_list body) =
     (case find_marker ''invocation'' decorator_list of
        Some (args, kws) \<Rightarrow>
          (case node_info defs args kws body of Inr ni \<Rightarrow> [ni] | Inl e \<Rightarrow> [])
      | None \<Rightarrow> [])"
| "record_of defs other = []"

definition invocation_records ::
  "(string \<times> OutputDefinitionInfo) list \<Rightarrow> (bool \<times> stmt) list \<Rightarrow> NodeInfo list" where
  "invocation_records defs tree = concat (map (\<lambda>n. record_of defs (snd n)) tree)"

text \<open>An example: a class with the marker \<open>@invocation_output("out")\<close>.\<close>

definition output_definition :: "string \<Rightarrow> stmt list \<Rightarrow> stmt" where
  "output_definition nm body =
     ClassDef nm [Call (Name ''invocation_output'') [Constant (CStr ''out'')] []] body"

section \<open>Auxiliary facts\<close>

subsection \<open>Success of the renderer\<close>

lemma succeeds_Inr [simp]: "succeeds (Inr x)"
  by (simp add: succeeds_def)

lemma succeeds_Inl [simp]: "\<not> succeeds (Inl x)"
  by (simp add: succeeds_def)

lemma succeeds_bind:
  "succeeds m \<Longrightarrow> (\<And>x. m = Inr x \<Longrightarrow> succeeds (f x)) \<Longrightarrow> succeeds (bind m f)"
  by (cases m) simp_all

lemma succeeds_iff: "succeeds m \<longleftrightarrow> (\<exists>x. m = Inr x)"
  by (cases m) simp_all

lemma subscript_succeeds:
  assumes v: "get_type_annotation v = Inr base"
    and tuple: "\<And>elts. sl = Index (Tuple elts) \<Longrightarrow> succeeds (get_type_annotations elts)"
    and index: "\<And>sv. sl = Index sv \<Longrightarrow> succeeds (get_type_annotation sv)"
    and other: "succeeds (get_type_annotation sl)"
  shows "succeeds (get_type_annotation (Subscript v sl))"
proof (cases sl)
  case (Index sv)
  show ?thesis
  proof (cases sv)
    case (Tuple elts)
    with Index tuple have "succeeds (get_type_annotations elts)" by simp
    then show ?thesis unfolding Index Tuple using v by (simp add: succeeds_bind)
  qed (use index [OF Index] v Index in \<open>simp_all add: succeeds_bind\<close>)
qed (use other v in \<open>simp_all add: succeeds_bind\<close>)

lemma get_type_annotation_succeeds:
  "succeeds (get_type_annotation e)" and "succeeds (get_type_annotations es)"
proof (induction e and es rule: get_type_annotation_get_type_annotations.induct)
  case (2 v sl)
  from "2"(1) obtain base where b: "get_type_annotation v = Inr base"
    by (cases "get_type_annotation v") simp_all
  note ih = "2"(2-) [OF b]
  show ?case
  proof (rule subscript_succeeds [OF b])
    fix elts assume "sl = Index (Tuple elts)"
    then show "succeeds (get_type_annotations elts)" by (rule ih(10)) (rule refl)
  next
    fix sv assume sl: "sl = Index sv"
    show "succeeds (get_type_annotation sv)"
    proof (cases sv)
      case (Tuple elts)
      with ih(10) [OF sl] have "succeeds (get_type_annotations elts)" by simp
      then show ?thesis unfolding Tuple by (simp add: succeeds_bind)
    qed (rule ih(5-14) [OF sl]; assumption)+
  next
    show "succeeds (get_type_annotation sl)"
    proof (cases sl)
      case (Index sv)
      then show ?thesis by simp
    qed (rule ih(1-4) ih(15-19); assumption)+
  qed
next
  case (6 func args kws)
  then show ?case by (auto intro!: succeeds_bind split: expr.splits)
next
  case (3 v attr)
  then show ?case by (auto intro!: succeeds_bind)
next
  case (5 elts)
  then show ?case by (auto intro!: succeeds_bind)
next
  case (12 e es)
  then show ?case by (auto intro!: succeeds_bind)
qed simp_all


lemma type_fallback: "\<not> type_annotation_shape e \<Longrightarrow> get_type_annotation e = Inr ''Any''"
  by (cases e) (auto split: expr.splits)

lemma default_fallback: "\<not> default_value_shape e \<Longrightarrow> get_default_value e = Inr ''None''"
  by (cases e) (auto split: expr.splits)

subsection \<open>Keywords of an input field, dictionaries, output fields\<close>

lemma input_keywords_without_default:
  "Some ''default'' \<notin> fst ` set kws \<Longrightarrow>
   \<exists>d'. \<forall>rest. input_keywords (kws @ rest) (d, dflt) = input_keywords rest (d', dflt)"
proof (induction kws arbitrary: d)
  case Nil
  then show ?case by auto
next
  case (Cons kw kws)
  then have nd: "fst kw \<noteq> Some ''default''" and rest: "Some ''default'' \<notin> fst ` set kws"
    by auto
  show ?case
  proof (cases "if fst kw = Some ''description''
            then (case snd kw of Constant c \<Rightarrow> Some c | _ \<Rightarrow> None) else None")
    case None
    with nd Cons.IH [OF rest, of d] show ?thesis by simp
  next
    case (Some c)
    with nd Cons.IH [OF rest, of c] show ?thesis by simp
  qed
qed


lemma map_fst_dict_set_new:
  "k \<notin> fst ` set d \<Longrightarrow> map fst (dict_set k v d) = map fst d @ [k]"
  by (induction d) auto

lemma dict_get_dict_set:
  "dict_get (dict_set k v d) k' = (if k' = k then Some v else dict_get d k')"
  by (induction d) (auto simp add: dict_get_def)

lemma output_field_of_succeeds: "succeeds (output_field_of item)"
  using get_type_annotation_succeeds(1)
  by (cases item) (auto simp add: Let_def intro!: succeeds_bind)

lemma collect_succeeds: "(\<And>x. succeeds (f x)) \<Longrightarrow> succeeds (collect f xs)"
  by (induction xs) (auto intro!: succeeds_bind)

subsection \<open>Sorting and the loop over the files\<close>

lemma lower_apple: "lower ''apple'' = ''apple''" by code_simp
lemma lower_Banana: "lower ''Banana'' = ''banana''" by code_simp
lemma apple_banana: "(''apple'' :: string) < ''banana''" by simp

lemma sorted_nth_less:
  fixes f :: "'a \<Rightarrow> 'k::linorder"
  assumes "sorted (map f xs)" and "i < length xs" and "j < length xs" and "f (xs ! i) < f (xs ! j)"
  shows "i < j"
proof (rule ccontr)
  assume "\<not> i < j"
  then have "j \<le> i" by simp
  with assms(1,2) have "map f xs ! j \<le> map f xs ! i"
    by (simp add: sorted_iff_nth_mono del: nth_map)
  with assms show False by simp
qed

lemma extract_files_append:
  "extract_files d self (xs @ ys) =
     (let (s1, l1) = extract_files d self xs; (s2, l2) = extract_files d s1 ys
      in (s2, l1 @ l2))"
  by (induction xs arbitrary: self) (auto simp add: Let_def split: prod.splits source_file.splits)

subsection \<open>What raises and what does not\<close>

lemma extract_return_type_succeeds: "succeeds (extract_return_type_from_decorator d)"
  using get_type_annotation_succeeds(1)
  by (cases d rule: extract_return_type_from_decorator.cases) (auto split: list.splits)





lemma process_output_definition_succeeds:
  "succeeds (process_output_definition self nm ds body)"
  unfolding process_output_definition_def
  using collect_succeeds [of output_field_of body, OF output_field_of_succeeds]
  by (auto intro!: succeeds_bind split: option.splits)

lemma first_pass_succeeds: "succeeds (first_pass self n)"
  by (cases "(self, n)" rule: first_pass.cases) (simp_all add: process_output_definition_succeeds)


lemma try_loop_succeeds:
  "(\<And>s x. succeeds (step s x)) \<Longrightarrow> snd (try_loop step s xs) = None"
proof (induction xs arbitrary: s)
  case Nil
  then show ?case by simp
next
  case (Cons x xs)
  from Cons.prems [of s x] obtain s' where "step s x = Inr s'"
    by (auto simp add: succeeds_iff)
  then show ?case using Cons.IH [of s'] Cons.prems by simp
qed



















lemma first_pass_all: "snd (try_loop first_pass self tree) = None"
  by (rule try_loop_succeeds) (rule first_pass_succeeds)

lemma process_file_Module:
  "process_file self (Module body) filepath =
     (case try_loop second_pass (fst (try_loop first_pass self (walk_module body)))
             (walk_module body) of
        (self2, Some e) \<Rightarrow> (self2, [Error_parsing filepath e])
      | (self2, None) \<Rightarrow> (self2, []))"
  using first_pass_all [of self "walk_module body"]
  by (cases "try_loop first_pass self (walk_module body)")
    (simp add: process_file_def Let_def)

subsection \<open>The limit on integer conversion\<close>

lemma huge_lower: "(10::int) ^ 4300 \<le> huge"
proof -
  have a: "(10::int) ^ 4300 \<le> 10 ^ (6 * 1000)"
    by (rule power_increasing) simp_all
  have b: "((10::int) ^ 6) ^ 1000 < (16 ^ 5) ^ 1000"
    by (rule power_strict_mono) simp_all
  have c: "(10::int) ^ (6 * 1000) < 16 ^ (5 * 1000)"
    using b by (simp only: power_mult)
  have d: "(5::nat) * 1000 = 5000"
    by simp
  from a c have "(10::int) ^ 4300 < 16 ^ (5 * 1000)"
    by (rule le_less_trans)
  then have "(10::int) ^ 4300 < 16 ^ 5000"
    by (simp only: d)
  then show ?thesis
    unfolding huge_def by (simp only: zle_diff1_eq)
qed

lemma exceeds_max_str_digitsI:
  assumes "limit \<noteq> 0" and "10 ^ limit \<le> i"
  shows "exceeds_max_str_digits limit i"
proof -
  have "(0::int) \<le> 10 ^ limit"
    by (rule zero_le_power) simp
  from this assms(2) have "0 \<le> i"
    by (rule order_trans)
  then have "\<bar>i\<bar> = i"
    by (rule abs_of_nonneg)
  with assms show ?thesis
    by (simp add: exceeds_max_str_digits_def)
qed

lemma huge_exceeds: "exceeds_max_str_digits int_max_str_digits huge"
proof (rule exceeds_max_str_digitsI)
  show "int_max_str_digits \<noteq> 0"
    by (simp add: int_max_str_digits_def)
  show "10 ^ int_max_str_digits \<le> huge"
    by (simp only: int_max_str_digits_def huge_lower)
qed

lemma str_limit_off: "str_limit 0 c = Inr (py_str c)"
  by (cases c) (simp_all add: exceeds_max_str_digits_def)

lemma get_type_annotation_limit_off:
  "get_type_annotation_limit 0 e = get_type_annotation e"
  and "get_type_annotations_limit 0 es = get_type_annotations es"
proof (induction e and es rule: get_type_annotation_get_type_annotations.induct)
  case (2 v sl)
  show ?case
  proof (cases "get_type_annotation v")
    case (Inl e)
    with "2"(1) show ?thesis by simp
  next
    case (Inr base)
    note ih = "2"(2-) [OF Inr]
    show ?thesis
    proof (cases "\<exists>sv. sl = Index sv")
      case True
      then obtain sv where sl: "sl = Index sv" by blast
      show ?thesis
      proof (cases "\<exists>elts. sv = Tuple elts")
        case True
        then obtain elts where sv: "sv = Tuple elts" by blast
        from ih(10) [OF sl sv] "2"(1) Inr show ?thesis
          by (simp add: sl sv)
      next
        case False
        have e: "get_type_annotation_limit 0 sv = get_type_annotation sv"
        proof (cases sv)
          case (Tuple elts)
          with False show ?thesis by simp
        qed (rule ih(5-14) [OF sl]; assumption)+
        have l: "get_type_annotation_limit 0 (Subscript v (Index sv)) =
            bind (get_type_annotation_limit 0 v) (\<lambda>base.
              bind (get_type_annotation_limit 0 sv) (\<lambda>p. Inr (base @ ''['' @ p @ '']'')))"
          using False by (cases sv) simp_all
        have r: "get_type_annotation (Subscript v (Index sv)) =
            bind (get_type_annotation v) (\<lambda>base.
              bind (get_type_annotation sv) (\<lambda>p. Inr (base @ ''['' @ p @ '']'')))"
          using False by (cases sv) simp_all
        show ?thesis
          unfolding sl l r using "2"(1) e by simp
      qed
    next
      case False
      have e: "get_type_annotation_limit 0 sl = get_type_annotation sl"
      proof (cases sl)
        case (Index sv)
        with False show ?thesis by simp
      qed (rule ih(1-4) ih(15-19); assumption)+
      have l: "get_type_annotation_limit 0 (Subscript v sl) =
          bind (get_type_annotation_limit 0 v) (\<lambda>base.
            bind (get_type_annotation_limit 0 sl) (\<lambda>p. Inr (base @ ''['' @ p @ '']'')))"
        using False by (cases sl) simp_all
      have r: "get_type_annotation (Subscript v sl) =
          bind (get_type_annotation v) (\<lambda>base.
            bind (get_type_annotation sl) (\<lambda>p. Inr (base @ ''['' @ p @ '']'')))"
        using False by (cases sl) simp_all
      show ?thesis
        unfolding l r using "2"(1) e by simp
    qed
  qed
next
  case (4 c)
  show ?case by (simp add: str_limit_off)
next
  case (6 func args kws)
  then show ?case by (cases func) simp_all
next
  case (12 e es)
  then show ?case by (cases "get_type_annotation e") simp_all
qed simp_all

lemma get_default_value_limit_off:
  "get_default_value_limit 0 e = get_default_value e"
  and "get_default_values_limit 0 es = get_default_values es"
  and "get_default_value_keys_limit 0 ks = get_default_value_keys ks"
proof (induction e and es and ks
    rule: get_default_value_get_default_values_get_default_value_keys.induct)
  case (1 c)
  show ?case by (simp add: str_limit_off)
next
  case (4 keys vals)
  then show ?case by (cases "get_default_value_keys keys") simp_all
next
  case (5 func args kws)
  then show ?case by (cases func) simp_all
next
  case (12 e es)
  then show ?case by (cases "get_default_value e") simp_all
next
  case (14 k ks)
  then show ?case
    by (cases k; cases "case k of None \<Rightarrow> Inr ''None'' | Some e \<Rightarrow> get_default_value e")
      simp_all
qed simp_all

subsection \<open>The two passes over a module\<close>

lemma first_pass_step:
  "\<exists>s1. first_pass self n = Inr s1 \<and> nodes s1 = nodes self \<and>
     (\<forall>k. dict_get (output_defs s1) k =
        (case definition_of k (snd n) of
           Some fs \<Rightarrow> Some \<lparr>def_name = k, def_fields = fs\<rparr>
         | None \<Rightarrow> dict_get (output_defs self) k))"
proof (cases "snd n")
  case (ClassDef nm ds body)
  from collect_succeeds [of output_field_of body, OF output_field_of_succeeds]
  obtain fs where fs: "collect output_field_of body = Inr fs"
    by (auto simp add: succeeds_iff)
  show ?thesis
    using ClassDef fs
    by (cases n; cases "find_marker ''invocation_output'' ds")
      (auto simp add: process_output_definition_def dict_get_dict_set)
qed (cases n; simp)+

lemma first_pass_registry:
  "nodes (fst (try_loop first_pass self tree)) = nodes self \<and>
   (\<forall>k. dict_get (output_defs (fst (try_loop first_pass self tree))) k =
      (case module_definition k tree of
         Some fs \<Rightarrow> Some \<lparr>def_name = k, def_fields = fs\<rparr>
       | None \<Rightarrow> dict_get (output_defs self) k))"
proof (induction tree arbitrary: self)
  case Nil
  then show ?case by simp
next
  case (Cons n tree)
  from first_pass_step [of self n] obtain s1 where
    s1: "first_pass self n = Inr s1" "nodes s1 = nodes self"
      "\<And>k. dict_get (output_defs s1) k =
        (case definition_of k (snd n) of
           Some fs \<Rightarrow> Some \<lparr>def_name = k, def_fields = fs\<rparr>
         | None \<Rightarrow> dict_get (output_defs self) k)"
    by blast
  show ?case
    using Cons.IH [of s1] s1 by (auto split: option.splits)
qed

lemma second_pass_step:
  "second_pass s n = Inr s1 \<Longrightarrow>
   nodes s1 = nodes s @ record_of (output_defs s) (snd n) \<and> output_defs s1 = output_defs s"
  by (cases "(s, n)" rule: second_pass.cases)
    (auto simp add: process_invocation_def process_function_def bind_def Let_def
      split: option.splits sum.splits prod.splits if_splits)

lemma second_pass_records:
  "try_loop second_pass s tree = (s', None) \<Longrightarrow>
   nodes s' = nodes s @ invocation_records (output_defs s) tree \<and> output_defs s' = output_defs s"
proof (induction tree arbitrary: s)
  case Nil
  then show ?case by (simp add: invocation_records_def)
next
  case (Cons n tree)
  show ?case
  proof (cases "second_pass s n")
    case (Inl e)
    with Cons.prems show ?thesis by simp
  next
    case (Inr s1)
    with Cons.prems have "try_loop second_pass s1 tree = (s', None)" by simp
    from Cons.IH [OF this] second_pass_step [OF Inr] show ?thesis
      by (simp add: invocation_records_def)
  qed
qed

section \<open>The claims\<close>

text \<open>
  Claim C3. The claim says that the expression renderer returns a string and never raises,
  for every syntax subtree. The renderer converts the value of a constant with \<open>str\<close>, and
  under the interpreter's default limit of 4300 digits \<open>str\<close> raises \<open>ValueError\<close> for the
  integer constant \<open>0xff...f\<close> of 5000 hexadecimal digits, which \<open>ast.parse\<close> accepts: both
  \<open>_get_type_annotation\<close> and \<open>_get_default_value\<close> raise on it.
\<close>

theorem C3_integer_conversion_raises:
  "get_type_annotation_limit int_max_str_digits (Constant (CInt huge)) = Inl ValueError \<and>
   get_default_value_limit int_max_str_digits (Constant (CInt huge)) = Inl ValueError"
  by (simp add: huge_exceeds)

text \<open>
  Claim C8. The claim says that a subscript with base \<open>Base\<close> and the two parameters \<open>A\<close> and
  \<open>B\<close> renders as \<open>"Base[A, B]"\<close>. From Python 3.9 on the slice of \<open>Base[A, B]\<close> is the
  tuple itself; the branch for it renders the tuple with its parentheses, \<open>"Base[(A, B)]"\<close>.
  Only the Python 3.8 branch, which unwraps \<open>ast.Index\<close>, joins the elements of the tuple
  without parentheses.
\<close>

theorem C8_tuple_subscript_rendering:
  "get_type_annotation (Subscript (Name base) (Tuple [Name a, Name b])) =
     Inr (base @ ''[('' @ a @ '', '' @ b @ '')]'') \<and>
   get_type_annotation (Subscript (Name base) (Index (Tuple [Name a, Name b]))) =
     Inr (base @ ''['' @ a @ '', '' @ b @ '']'')"
  by simp

text \<open>
  Claim C10. For every input field, a keyword \<open>default\<close> whose value is the constant \<open>None\<close>
  renders as \<open>"None"\<close>, the text that stands for a missing default: the record extracted
  from the field with \<open>default=None\<close> is the record extracted from the same field without the
  keyword, and its default is \<open>"None"\<close>. (A call has no keyword twice, so the other keywords
  are not \<open>default\<close>.)
\<close>

theorem C10_default_None:
  assumes "Some ''default'' \<notin> fst ` set kws1" and "Some ''default'' \<notin> fst ` set kws2"
  shows "get_default_value (Constant CNone) = Inr ''None'' \<and>
    input_field_of (AnnAssign target annotation
        (Some (Call func args (kws1 @ (Some ''default'', Constant CNone) # kws2)))) =
    input_field_of (AnnAssign target annotation (Some (Call func args (kws1 @ kws2)))) \<and>
    (\<forall>fld. input_field_of (AnnAssign target annotation (Some (Call func args (kws1 @ kws2)))) =
        Inr (Some fld) \<longrightarrow> input_default fld = ''None'')"
proof -
  from input_keywords_without_default [OF assms(1), of "CStr []" "''None''"]
  obtain d1 where d1: "\<And>rest. input_keywords (kws1 @ rest) (CStr [], ''None'') =
      input_keywords rest (d1, ''None'')"
    by blast
  from input_keywords_without_default [OF assms(2), of d1 "''None''"]
  obtain d2 where "\<And>rest. input_keywords (kws2 @ rest) (d1, ''None'') =
      input_keywords rest (d2, ''None'')"
    by blast
  from this [of "[]"] have d2: "input_keywords kws2 (d1, ''None'') = Inr (d2, ''None'')"
    by simp
  have without: "input_keywords (kws1 @ kws2) (CStr [], ''None'') = Inr (d2, ''None'')"
    using d1 [of kws2] d2 by simp
  have "input_keywords (kws1 @ (Some ''default'', Constant CNone) # kws2) (CStr [], ''None'') =
      input_keywords ((Some ''default'', Constant CNone) # kws2) (d1, ''None'')"
    by (rule d1)
  also have "\<dots> = Inr (d2, ''None'')"
    using d2 by simp
  finally have with_None:
    "input_keywords (kws1 @ (Some ''default'', Constant CNone) # kws2) (CStr [], ''None'') =
      Inr (d2, ''None'')" .
  show ?thesis
  proof (cases "get_type_annotation annotation")
    case (Inl e)
    then show ?thesis by simp
  next
    case (Inr ftype)
    then show ?thesis
      by (auto simp add: without with_None split: expr.splits if_splits)
  qed
qed

text \<open>The field \<open>width: int = InputField(description=..., default=None, ge=1)\<close>.\<close>

theorem C10_default_None_witness:
  "Some ''default'' \<notin> fst ` set [(Some ''description'', Constant (CStr ''The width''))] \<and>
   Some ''default'' \<notin> fst ` set [(Some ''ge'', Constant (CInt 1))] \<and>
   input_field_of (AnnAssign (Name ''width'') (Name ''int'')
     (Some (Call (Name ''InputField'') []
        [(Some ''description'', Constant (CStr ''The width'')),
         (Some ''default'', Constant CNone), (Some ''ge'', Constant (CInt 1))]))) =
   Inr (Some \<lparr>input_name = ''width'', input_type = ''int'',
              input_description = CStr ''The width'', input_default = ''None''\<rparr>) \<and>
   input_field_of (AnnAssign (Name ''width'') (Name ''int'')
     (Some (Call (Name ''InputField'') []
        [(Some ''description'', Constant (CStr ''The width'')),
         (Some ''ge'', Constant (CInt 1))]))) =
   Inr (Some \<lparr>input_name = ''width'', input_type = ''int'',
              input_description = CStr ''The width'', input_default = ''None''\<rparr>)"
  using C10_default_None [of "[(Some ''description'', Constant (CStr ''The width''))]"
      "[(Some ''ge'', Constant (CInt 1))]" "Name ''width''" "Name ''int''" "Name ''InputField''" "[]"]
  by simp



text \<open>
  Claim C4. Finalization sorts the records by their lowered titles in ascending order, and
  the sort is stable: the result of \<open>extract_docs\<close> holds the sorted list of the extracted
  records; the lowered titles of a sorted list ascend; the records of any one lowered title
  stand in the order they had; and a record titled \<open>"apple"\<close> stands before every record
  titled \<open>"Banana"\<close>, whatever the order of the list was.
\<close>

theorem C4_sort_by_lowered_title:
  "nodes (fst (extract_docs directory listing)) =
     sort_nodes (nodes (fst (extract_files directory init listing))) \<and>
   sorted (map (\<lambda>n. lower (title n)) (sort_nodes ns)) \<and>
   length (sort_nodes ns) = length ns \<and>
   (\<forall>k. filter (\<lambda>n. lower (title n) = k) (sort_nodes ns) =
        filter (\<lambda>n. lower (title n) = k) ns) \<and>
   (\<forall>i j. i < length ns \<and> j < length ns \<and> title (sort_nodes ns ! i) = ''apple'' \<and>
        title (sort_nodes ns ! j) = ''Banana'' \<longrightarrow> i < j)"
proof -
  have 1: "nodes (fst (extract_docs directory listing)) =
     sort_nodes (nodes (fst (extract_files directory init listing)))"
    by (simp add: extract_docs_def split: prod.splits)
  have 2: "sorted (map (\<lambda>n. lower (title n)) (sort_nodes ns))"
    by (simp add: sort_nodes_def)
  have 3: "length (sort_nodes ns) = length ns"
    by (simp add: sort_nodes_def)
  have 4: "filter (\<lambda>n. lower (title n) = k) (sort_nodes ns) =
        filter (\<lambda>n. lower (title n) = k) ns" for k
    by (simp add: sort_nodes_def sort_key_stable)
  have 5: "i < j" if "i < length ns" "j < length ns" "title (sort_nodes ns ! i) = ''apple''"
    "title (sort_nodes ns ! j) = ''Banana''" for i j
  proof (rule sorted_nth_less [OF 2])
    show "i < length (sort_nodes ns)" "j < length (sort_nodes ns)"
      using that 3 by simp_all
    show "lower (title (sort_nodes ns ! i)) < lower (title (sort_nodes ns ! j))"
      using that by (simp add: lower_apple lower_Banana)
  qed
  from 1 2 3 4 5 show ?thesis by blast
qed

text \<open>\<open>"Banana"\<close> declared before \<open>"apple"\<close>.\<close>

theorem C4_sort_by_lowered_title_witness:
  "(0::nat) < length [titled ''Banana'', titled ''apple''] \<and>
   (1::nat) < length [titled ''Banana'', titled ''apple''] \<and>
   title (sort_nodes [titled ''Banana'', titled ''apple''] ! 0) = ''apple'' \<and>
   title (sort_nodes [titled ''Banana'', titled ''apple''] ! 1) = ''Banana'' \<and>
   (0::nat) < 1"
  using C4_sort_by_lowered_title [of "[]" "[]" "[titled ''Banana'', titled ''apple'']"]
  by (simp add: sort_nodes_def titled_def lower_apple lower_Banana)

text \<open>
  Claim C5. A module that \<open>ast.parse\<close> rejects is caught in \<open>_process_file\<close>: the extractor
  is left as it was and one diagnostic is printed. In a directory, the records extracted with
  the broken module in the list are the records extracted without it, and the diagnostics are
  those of the other modules with the broken module's diagnostic between them (a file whose
  name does not end in \<open>.py\<close> is not read at all).
\<close>

theorem C5_parse_error_skipped:
  "process_file self (Unparsable e) filepath = (self, [Error_parsing filepath e]) \<and>
   fst (extract_docs directory (before @ (filename, Readable (Unparsable e)) # after)) =
   fst (extract_docs directory (before @ after)) \<and>
   (endswith filename ''.py'' \<longrightarrow>
     (\<exists>log1 log2.
        snd (extract_docs directory (before @ after)) = log1 @ log2 \<and>
        snd (extract_docs directory (before @ (filename, Readable (Unparsable e)) # after)) =
          log1 @ [Error_parsing (path_join directory filename) e] @ log2))"
proof -
  obtain s1 l1 where b: "extract_files directory init before = (s1, l1)"
    by (cases "extract_files directory init before")
  obtain s2 l2 where a: "extract_files directory s1 after = (s2, l2)"
    by (cases "extract_files directory s1 after")
  have pf: "process_file s (Unparsable e) p = (s, [Error_parsing p e])" for s p
    by (simp add: process_file_def)
  have without: "extract_files directory init (before @ after) = (s2, l1 @ l2)"
    by (simp add: extract_files_append b a)
  have broken: "extract_files directory init (before @ (filename, Readable (Unparsable e)) # after) =
      (s2, l1 @ (if endswith filename ''.py''
                 then [Error_parsing (path_join directory filename) e] else []) @ l2)"
    by (simp add: extract_files_append b a pf Let_def)
  show ?thesis
    using without broken pf by (auto simp add: extract_docs_def)
qed

text \<open>A broken module between two modules with one unit of work each.\<close>

theorem C5_parse_error_skipped_witness:
  "endswith ''broken.py'' ''.py'' \<and>
   extract_docs ''nodes''
        [(''a.py'', Readable (Module [unit_of_work ''Resize'' [returning (Name ''ImageOutput'')]])),
         (''broken.py'', Readable (Unparsable (SyntaxError ''invalid syntax''))),
         (''c.py'', Readable (Module [unit_of_work ''blur'' [returning (Name ''ImageOutput'')]]))] =
      (\<lparr>nodes =
          [\<lparr>name = ''node'', title = ''blur'', description = [], long_description = [],
             category = [], tags = [], version = [], inputs = [],
             node_output = \<lparr>output_type = ''ImageOutput'', output_fields = []\<rparr>\<rparr>,
           \<lparr>name = ''node'', title = ''Resize'', description = [], long_description = [],
             category = [], tags = [], version = [], inputs = [],
             node_output = \<lparr>output_type = ''ImageOutput'', output_fields = []\<rparr>\<rparr>],
         function_list = [], output_defs = []\<rparr>,
       [Error_parsing ''nodes/broken.py'' (SyntaxError ''invalid syntax'')])"
proof -
  have name: "endswith ''broken.py'' ''.py''"
    by code_simp
  have run: "extract_docs ''nodes''
         [(''a.py'', Readable (Module [unit_of_work ''Resize'' [returning (Name ''ImageOutput'')]])),
          (''broken.py'', Readable (Unparsable (SyntaxError ''invalid syntax''))),
          (''c.py'', Readable (Module [unit_of_work ''blur'' [returning (Name ''ImageOutput'')]]))] =
       (\<lparr>nodes =
           [\<lparr>name = ''node'', title = ''blur'', description = [], long_description = [],
              category = [], tags = [], version = [], inputs = [],
              node_output = \<lparr>output_type = ''ImageOutput'', output_fields = []\<rparr>\<rparr>,
            \<lparr>name = ''node'', title = ''Resize'', description = [], long_description = [],
              category = [], tags = [], version = [], inputs = [],
              node_output = \<lparr>output_type = ''ImageOutput'', output_fields = []\<rparr>\<rparr>],
          function_list = [], output_defs = []\<rparr>,
        [Error_parsing ''nodes/broken.py'' (SyntaxError ''invalid syntax'')])"
    by code_simp
  from name run
    C5_parse_error_skipped [of init "SyntaxError ''invalid syntax''" "''nodes/broken.py''" "''nodes''"
      "[(''a.py'', Readable (Module [unit_of_work ''Resize'' [returning (Name ''ImageOutput'')]]))]"
      "''broken.py''"
      "[(''c.py'', Readable (Module [unit_of_work ''blur'' [returning (Name ''ImageOutput'')]]))]"]
  show ?thesis by simp
qed



text \<open>
  Claim C2. The claim says that the number of records equals the number of classes carrying
  the unit-of-work marker. In this module, which \<open>ast.parse\<close> accepts, two classes carry the
  marker; the \<open>invoke\<close> method of the first returns \<open>a.b.c()\<close>, the read of \<open>.id\<close> from the
  base \<open>a.b\<close> raises, and extraction ends with no record at all.
\<close>

theorem C2_records_missing:
  "extract_docs ''nodes''
     [(''m.py'', Readable (Module
        [unit_of_work ''Broken'' [returning (Attribute (Attribute (Name ''a'') ''b'') ''c'')],
         unit_of_work ''Fine'' [returning (Name ''Out'')]]))] =
     (\<lparr>nodes = [], function_list = [], output_defs = []\<rparr>,
      [Error_parsing ''nodes/m.py'' AttributeError]) \<and>
   length (marked_classes ''invocation''
        [unit_of_work ''Broken'' [returning (Attribute (Attribute (Name ''a'') ''b'') ''c'')],
         unit_of_work ''Fine'' [returning (Name ''Out'')]]) = 2"
  by code_simp




text \<open>
  Claim C1, as amended. A unit of work's output reference is resolved against the output
  definitions of its own module, wherever they are declared, and of the modules processed
  before: when a module is processed without an exception, the registry after it holds, for
  every name, the last output definition of that name in the module (declared before or after
  the classes that refer to it) or else what the modules processed before have registered
  under the name, and the records added are those of the module's units of work built against
  this registry.
\<close>

theorem C1_resolution_within_a_module:
  assumes "snd (process_file self (Module body) filepath) = []"
  shows "nodes (fst (process_file self (Module body) filepath)) =
      nodes self @
      invocation_records (output_defs (fst (process_file self (Module body) filepath)))
        (walk_module body) \<and>
    (\<forall>k. dict_get (output_defs (fst (process_file self (Module body) filepath))) k =
      (case module_definition k (walk_module body) of
         Some fs \<Rightarrow> Some \<lparr>def_name = k, def_fields = fs\<rparr>
       | None \<Rightarrow> dict_get (output_defs self) k))"
proof -
  define s1 where "s1 = fst (try_loop first_pass self (walk_module body))"
  obtain s2 r where l: "try_loop second_pass s1 (walk_module body) = (s2, r)"
    by (cases "try_loop second_pass s1 (walk_module body)")
  from assms l have r: "r = None"
    by (cases r) (simp_all add: process_file_Module s1_def)
  with l have pf: "fst (process_file self (Module body) filepath) = s2"
    by (simp add: process_file_Module s1_def)
  from second_pass_records [of s1 "walk_module body" s2] l r
  have s2: "nodes s2 = nodes s1 @ invocation_records (output_defs s1) (walk_module body)"
    "output_defs s2 = output_defs s1"
    by simp_all
  from first_pass_registry [of self "walk_module body"]
  show ?thesis
    unfolding pf using s2 by (simp add: s1_def)
qed

text \<open>
  A module in which the unit of work stands before the output definition it returns: the
  fields are resolved.
\<close>

theorem C1_resolution_within_a_module_witness:
  "snd (process_file init
     (Module [unit_of_work ''Add'' [returning (Name ''Out'')],
              output_definition ''Out'' [AnnAssign (Name ''x'') (Name ''int'') None]])
     ''nodes/m.py'') = [] \<and>
   module_definition ''Out''
     (walk_module [unit_of_work ''Add'' [returning (Name ''Out'')],
              output_definition ''Out'' [AnnAssign (Name ''x'') (Name ''int'') None]]) =
     Some [\<lparr>field_name = ''x'', field_type = ''int'', field_description = CStr []\<rparr>] \<and>
   map node_output (nodes (fst (process_file init
     (Module [unit_of_work ''Add'' [returning (Name ''Out'')],
              output_definition ''Out'' [AnnAssign (Name ''x'') (Name ''int'') None]])
     ''nodes/m.py''))) =
     [\<lparr>output_type = ''Out'', output_fields =
        [\<lparr>field_name = ''x'', field_type = ''int'', field_description = CStr []\<rparr>]\<rparr>]"
proof -
  let ?m = "[unit_of_work ''Add'' [returning (Name ''Out'')],
              output_definition ''Out'' [AnnAssign (Name ''x'') (Name ''int'') None]]"
  have quiet: "snd (process_file init (Module ?m) ''nodes/m.py'') = []"
    by code_simp
  have def: "module_definition ''Out'' (walk_module ?m) =
     Some [\<lparr>field_name = ''x'', field_type = ''int'', field_description = CStr []\<rparr>]"
    by code_simp
  have recs: "map node_output (nodes init @
      invocation_records (output_defs (fst (process_file init (Module ?m) ''nodes/m.py'')))
        (walk_module ?m)) =
     [\<lparr>output_type = ''Out'', output_fields =
        [\<lparr>field_name = ''x'', field_type = ''int'', field_description = CStr []\<rparr>]\<rparr>]"
    by code_simp
  from C1_resolution_within_a_module [OF quiet]
  have "nodes (fst (process_file init (Module ?m) ''nodes/m.py'')) =
      nodes init @
      invocation_records (output_defs (fst (process_file init (Module ?m) ''nodes/m.py'')))
        (walk_module ?m)"
    by (rule conjunct1)
  with recs have "map node_output (nodes (fst (process_file init (Module ?m) ''nodes/m.py''))) =
     [\<lparr>output_type = ''Out'', output_fields =
        [\<lparr>field_name = ''x'', field_type = ''int'', field_description = CStr []\<rparr>]\<rparr>]"
    by (simp only:)
  with quiet def show ?thesis
    by blast
qed

text \<open>
  The claim as stated fails for an output definition in a module processed later: with the
  unit of work in \<open>a.py\<close> and the output definition in \<open>b.py\<close>, the registry holds the field
  \<open>x\<close> of \<open>Out\<close> in the end, and the record of the unit of work has no field.
\<close>

theorem C1_later_module_not_seen:
  "extract_docs ''nodes''
     [(''a.py'', Readable (Module [unit_of_work ''Add'' [returning (Name ''Out'')]])),
      (''b.py'', Readable (Module
         [output_definition ''Out'' [AnnAssign (Name ''x'') (Name ''int'') None]]))] =
   (\<lparr>nodes =
       [\<lparr>name = ''node'', title = ''Add'', description = [], long_description = [],
          category = [], tags = [], version = [], inputs = [],
          node_output = \<lparr>output_type = ''Out'', output_fields = []\<rparr>\<rparr>],
      function_list = [],
      output_defs =
       [(''Out'', \<lparr>def_name = ''Out'', def_fields =
           [\<lparr>field_name = ''x'', field_type = ''int'', field_description = CStr []\<rparr>]\<rparr>)]\<rparr>,
    [])"
  by code_simp

end
